theory Spec2Isabelle
  imports Complex_Main
begin

section \<open>Base Bridge Utilities: the model of \<^verbatim>\<open>src/BaseBridge.ts\<close>\<close>

text \<open>
  Chain identifiers are the TypeScript \<^verbatim>\<open>number\<close>s the registry holds; they are modelled
  as \<^typ>\<open>int\<close>. Addresses, hashes, amounts and messages are strings. An \<^verbatim>\<open>async\<close>
  method is a function from the world before the call to its outcome and the world after
  it: a rejected promise is \<open>Inl\<close> of an \<open>error\<close>, a resolved one \<open>Inr\<close>
  of the value.
\<close>

subsection \<open>Errors\<close>

text \<open>
  The source throws plain \<^verbatim>\<open>Error\<close> objects told apart by their message:
  \<^item> \<open>UnsupportedHop s t\<close>: \<^verbatim>\<open>Bridge not supported between chains s and t\<close>;
  \<^item> \<open>SigningUnavailable\<close>: \<^verbatim>\<open>Signer required for bridge transactions\<close>;
  \<^item> \<open>RouteNotFound f t\<close>: \<^verbatim>\<open>No route found from chain f to t\<close>;
  \<^item> \<open>SyntaxError s\<close>: what \<^verbatim>\<open>BigInt(s)\<close> throws on a string that is no integer literal;
  \<^item> \<open>RangeError m\<close>: the numeric fault of the ethers library, \<^verbatim>\<open>overflow\<close> when a value
    does not fit its fixed-point format;
  \<^item> \<open>ProviderError m\<close>: whatever the provider or the signer rejected with.
\<close>

datatype error =
    UnsupportedHop int int
  | SigningUnavailable
  | RouteNotFound int int
  | SyntaxError string
  | RangeError string
  | ProviderError string

subsection \<open>JavaScript's BigInt: parsing and printing\<close>

definition digit_char :: "nat \<Rightarrow> char" where
  "digit_char d =
     (if d = 0 then CHR ''0'' else if d = 1 then CHR ''1'' else if d = 2 then CHR ''2''
      else if d = 3 then CHR ''3'' else if d = 4 then CHR ''4'' else if d = 5 then CHR ''5''
      else if d = 6 then CHR ''6'' else if d = 7 then CHR ''7'' else if d = 8 then CHR ''8''
      else CHR ''9'')"

fun decimal :: "nat \<Rightarrow> string" where
  "decimal n = (if n < 10 then [digit_char n] else decimal (n div 10) @ [digit_char (n mod 10)])"

declare decimal.simps [simp del]

text \<open>\<^verbatim>\<open>bigint.toString()\<close>: decimal digits, a minus sign for a negative value.\<close>

definition toString :: "int \<Rightarrow> string" where
  "toString v = (if v < 0 then CHR ''-'' # decimal (nat (- v)) else decimal (nat v))"

text \<open>The value of a digit in any radix up to 16, both letter cases.\<close>

definition digit_value :: "char \<Rightarrow> nat option" where
  "digit_value c =
     map_of [(CHR ''0'', 0), (CHR ''1'', 1), (CHR ''2'', 2), (CHR ''3'', 3), (CHR ''4'', 4),
             (CHR ''5'', 5), (CHR ''6'', 6), (CHR ''7'', 7), (CHR ''8'', 8), (CHR ''9'', 9),
             (CHR ''a'', 10), (CHR ''b'', 11), (CHR ''c'', 12), (CHR ''d'', 13),
             (CHR ''e'', 14), (CHR ''f'', 15),
             (CHR ''A'', 10), (CHR ''B'', 11), (CHR ''C'', 12), (CHR ''D'', 13),
             (CHR ''E'', 14), (CHR ''F'', 15)] c"

fun parse_digits :: "nat \<Rightarrow> nat \<Rightarrow> string \<Rightarrow> nat option" where
  "parse_digits r acc [] = Some acc"
| "parse_digits r acc (c # cs) =
     (case digit_value c of
        None \<Rightarrow> None
      | Some d \<Rightarrow> if d < r then parse_digits r (acc * r + d) cs else None)"

definition parse_radix :: "nat \<Rightarrow> string \<Rightarrow> nat option" where
  "parse_radix r s = (if s = [] then None else parse_digits r 0 s)"

text \<open>The ASCII part of ECMAScript's white space and line terminators.\<close>

definition is_white_space :: "char \<Rightarrow> bool" where
  "is_white_space c \<longleftrightarrow>
     c = CHR '' '' \<or> c = CHR 0x09 \<or> c = CHR 0x0A \<or> c = CHR 0x0B \<or> c = CHR 0x0C \<or> c = CHR 0x0D"

definition trim :: "string \<Rightarrow> string" where
  "trim s = rev (dropWhile is_white_space (rev (dropWhile is_white_space s)))"

text \<open>
  ECMAScript's StringToBigInt: the trimmed string is empty (zero), a hexadecimal, octal
  or binary literal without sign, or a decimal literal with an optional sign.
\<close>

definition StringToBigInt :: "string \<Rightarrow> int option" where
  "StringToBigInt str =
     (let s = trim str in
      if s = [] then Some 0
      else if take 2 s = ''0x'' \<or> take 2 s = ''0X'' then map_option int (parse_radix 16 (drop 2 s))
      else if take 2 s = ''0o'' \<or> take 2 s = ''0O'' then map_option int (parse_radix 8 (drop 2 s))
      else if take 2 s = ''0b'' \<or> take 2 s = ''0B'' then map_option int (parse_radix 2 (drop 2 s))
      else if hd s = CHR ''-'' then map_option (\<lambda>n. - int n) (parse_radix 10 (tl s))
      else if hd s = CHR ''+'' then map_option int (parse_radix 10 (tl s))
      else map_option int (parse_radix 10 s))"

text \<open>\<^verbatim>\<open>BigInt(s)\<close> on a string: the parsed value, or a SyntaxError.\<close>

definition BigInt :: "string \<Rightarrow> error + int" where
  "BigInt s = (case StringToBigInt s of None \<Rightarrow> Inl (SyntaxError s) | Some v \<Rightarrow> Inr v)"

text \<open>Division of BigInts truncates towards zero (the divisor here is never zero).\<close>

definition bigint_div :: "int \<Rightarrow> int \<Rightarrow> int" where
  "bigint_div a b = sgn a * sgn b * (\<bar>a\<bar> div \<bar>b\<bar>)"

text \<open>
  \<^verbatim>\<open>ethers.formatEther\<close> (the ethers library, version 6). The value in wei goes through a
  signed fixed-point number of 512 bits: a value outside \<open>-2^511 \<le> v < 2^511\<close> is refused
  with the RangeError \<^verbatim>\<open>overflow\<close>. Otherwise the result is the decimal number of ether,
  eighteen fractional digits with the trailing zeros removed down to one.
\<close>

definition strip_trailing_zeros :: "string \<Rightarrow> string" where
  "strip_trailing_zeros s =
     (let t = rev (dropWhile (\<lambda>c. c = CHR ''0'') (rev s)) in if t = [] then ''0'' else t)"

definition fixed_overflow :: "int \<Rightarrow> bool" where
  "fixed_overflow v \<longleftrightarrow> v < - (2 ^ 511) \<or> 2 ^ 511 \<le> v"

definition formatEther :: "int \<Rightarrow> error + string" where
  "formatEther v =
     (if fixed_overflow v then Inl (RangeError ''overflow'')
      else
        let a = nat \<bar>v\<bar>;
            whole = decimal (a div 10 ^ 18);
            digits = decimal (a mod 10 ^ 18);
            frac = replicate (18 - length digits) (CHR ''0'') @ digits
        in Inr ((if v < 0 then ''-'' else []) @ whole @ ''.'' @ strip_trailing_zeros frac))"

definition ZeroAddress :: string where
  "ZeroAddress = ''0x0000000000000000000000000000000000000000''"

subsection \<open>Data model\<close>

record BridgeConfig =
  sourceChain :: int
  targetChain :: int
  bridgeContract :: string
  tokenAddress :: string
  amount :: string
  recipient :: string

datatype status = Pending | Confirmed | Failed

text \<open>
  The fields \<^verbatim>\<open>sourceChain\<close>, \<^verbatim>\<open>targetChain\<close> and \<^verbatim>\<open>amount\<close> of the interface
  \<^verbatim>\<open>BridgeStatus\<close> carry the prefix \<open>status\<close> here, since \<open>BridgeConfig\<close> has
  fields of the same names.
\<close>

record BridgeStatus =
  transactionHash :: string
  status :: status
  statusSourceChain :: int
  statusTargetChain :: int
  statusAmount :: string
  timestamp :: int

text \<open>
  The result of \<^verbatim>\<open>getOptimalRoute\<close> is the record \<open>Route\<close>; its field
  \<^verbatim>\<open>estimatedTime\<close> is \<open>routeEstimatedTime\<close> here, the plain name being the field of
  \<open>GasEstimate\<close>. The slippage is the literal of the source, a percentage on which no
  arithmetic is done.
\<close>

record GasEstimate =
  gasLimit :: string
  gasPrice :: string
  totalCost :: string
  estimatedTime :: int

record Route =
  route :: "int list"
  routeEstimatedTime :: int
  estimatedCost :: string
  slippage :: real

record Fees =
  bridgeFee :: string
  gasFee :: string
  totalFee :: string

subsection \<open>The static tables\<close>

abbreviation (input) ETHEREUM :: int where "ETHEREUM \<equiv> 1"
abbreviation (input) BASE :: int where "BASE \<equiv> 8453"
abbreviation (input) OPTIMISM :: int where "OPTIMISM \<equiv> 10"
abbreviation (input) ARBITRUM :: int where "ARBITRUM \<equiv> 42161"
abbreviation (input) POLYGON :: int where "POLYGON \<equiv> 137"

definition SUPPORTED_CHAINS :: "int list" where
  "SUPPORTED_CHAINS = [ETHEREUM, BASE, OPTIMISM, ARBITRUM, POLYGON]"

definition BRIDGE_CONTRACTS :: "int \<rightharpoonup> (int \<rightharpoonup> string)" where
  "BRIDGE_CONTRACTS =
     [ETHEREUM \<mapsto> [BASE \<mapsto> ''0x3154Cf16ccdb4C6d922629664174b904d80F2C35'',
                  OPTIMISM \<mapsto> ''0x99C9fc46f92E8a1c0deC1b1747d010903E884bE1''],
      BASE \<mapsto> [ETHEREUM \<mapsto> ''0x4200000000000000000000000000000000000010'',
              OPTIMISM \<mapsto> ''0x4200000000000000000000000000000000000007'']]"

definition TOKEN_ADDRESSES :: "string \<rightharpoonup> (int \<rightharpoonup> string)" where
  "TOKEN_ADDRESSES =
     [''USDC'' \<mapsto> [ETHEREUM \<mapsto> ''0xA0b86a33E6441E6C673C5C9C7C5C5C5C5C5C5C5C'',
                 BASE \<mapsto> ''0x833589fCD6eDb6E08f4c7C32D4f71b54bdA02913'',
                 OPTIMISM \<mapsto> ''0x7F5c764cBc14f9669B88837ca1490cCa17c31607''],
      ''WETH'' \<mapsto> [ETHEREUM \<mapsto> ''0xC02aaA39b223FE8D0A0e5C4F27eAD9083C756Cc2'',
                 BASE \<mapsto> ''0x4200000000000000000000000000000000000006'',
                 OPTIMISM \<mapsto> ''0x4200000000000000000000000000000000000006'']]"

text \<open>\<^verbatim>\<open>table[a]?.[b]\<close>: undefined (\<open>None\<close>) when either key is missing.\<close>

definition lookup2 :: "('a \<rightharpoonup> ('b \<rightharpoonup> string)) \<Rightarrow> 'a \<Rightarrow> 'b \<Rightarrow> string option" where
  "lookup2 table a b = (case table a of None \<Rightarrow> None | Some row \<Rightarrow> row b)"

text \<open>JavaScript's truthiness of a string or undefined: only a non-empty string is truthy.\<close>

definition truthy :: "string option \<Rightarrow> bool" where
  "truthy v = (case v of None \<Rightarrow> False | Some s \<Rightarrow> s \<noteq> [])"

definition isChainSupported :: "int \<Rightarrow> bool" where
  "isChainSupported chainId \<longleftrightarrow> chainId \<in> set SUPPORTED_CHAINS"

subsection \<open>The external collaborators and the world\<close>

text \<open>
  The provider and the signer are not part of the repository. A provider is what it
  answers: \<open>Inl m\<close> is a rejection with message \<open>m\<close>. The receipt's \<^verbatim>\<open>status\<close> is a
  number or null; a missing receipt is \<open>None\<close>. The fee data's \<^verbatim>\<open>gasPrice\<close> (a
  BigInt or null) is \<open>feeGasPrice\<close>, and the receipt's \<^verbatim>\<open>status\<close> is
  \<open>receiptStatus\<close>.
\<close>

record FeeData =
  feeGasPrice :: "int option"
  maxFeePerGas :: "int option"
  maxPriorityFeePerGas :: "int option"

record Receipt =
  receiptStatus :: "int option"
  receiptHash :: string

record Provider =
  getFeeData :: "string + FeeData"
  getTransactionReceipt :: "string \<Rightarrow> string + Receipt option"

text \<open>
  The two methods of the bridge contract's ABI, as the transaction the signer is asked to
  send: the contract's address first, then the arguments in the order of the call.
\<close>

datatype transaction =
    BridgeETH string string int string
  | BridgeToken string string string string int

record Signer =
  sendTransaction :: "transaction \<Rightarrow> string + string"

record BaseBridge =
  provider :: Provider
  signer :: "Signer option"

text \<open>
  Every interaction with the outside is appended to the world's log, so that "no call
  was made" is a statement about the log; \<open>clock\<close> is what \<^verbatim>\<open>Date.now()\<close> reads.
\<close>

datatype call =
    GetFeeDataCall
  | GetTransactionReceiptCall string
  | SendTransactionCall transaction

record world =
  calls :: "call list"
  clock :: int

definition logged :: "call \<Rightarrow> world \<Rightarrow> world" where
  "logged c w = w\<lparr>calls := calls w @ [c]\<rparr>"

subsection \<open>The methods of the class \<^verbatim>\<open>BaseBridge\<close>\<close>

text \<open>
  \<^verbatim>\<open>gasPrice.gasPrice || BigInt('20000000000')\<close>: the provider's gas price, or 20 gwei when
  it is null or zero (both are falsy).
\<close>

definition effective_gas_price :: "FeeData \<Rightarrow> int" where
  "effective_gas_price feeData =
     (case feeGasPrice feeData of
        None \<Rightarrow> 20000000000
      | Some p \<Rightarrow> if p = 0 then 20000000000 else p)"

text \<open>
  \<open>estimateGas\<close> has four outcomes: no bridge contract for the pair; the provider rejects
  the fee query; \<^verbatim>\<open>formatEther\<close> refuses the total cost; or the estimate.
\<close>

definition estimateGas ::
  "BaseBridge \<Rightarrow> BridgeConfig \<Rightarrow> world \<Rightarrow> (error + GasEstimate) \<times> world" where
  "estimateGas this config w =
     (let bridgeAddress = lookup2 BRIDGE_CONTRACTS (sourceChain config) (targetChain config) in
      if \<not> truthy bridgeAddress
      then (Inl (UnsupportedHop (sourceChain config) (targetChain config)), w)
      else
        let gasLimit = ''200000'';
            w1 = logged GetFeeDataCall w
        in (case getFeeData (provider this) of
             Inl m \<Rightarrow> (Inl (ProviderError m), w1)
           | Inr feeData \<Rightarrow>
               (case BigInt gasLimit of
                  Inl e \<Rightarrow> (Inl e, w1)
                | Inr limit \<Rightarrow>
                    (case formatEther (limit * effective_gas_price feeData) of
                       Inl e \<Rightarrow> (Inl e, w1)
                     | Inr cost \<Rightarrow>
                         let estimatedTime =
                               (if targetChain config = BASE then 10
                                else if targetChain config = ETHEREUM then 20
                                else 15)
                         in (Inr \<lparr>gasLimit = gasLimit,
                                  gasPrice = (case feeGasPrice feeData of
                                                None \<Rightarrow> ''20000000000''
                                              | Some p \<Rightarrow> toString p),
                                  totalCost = cost,
                                  estimatedTime = estimatedTime\<rparr>, w1)))))"

definition initiateBridge ::
  "BaseBridge \<Rightarrow> BridgeConfig \<Rightarrow> world \<Rightarrow> (error + string) \<times> world" where
  "initiateBridge this config w =
     (case signer this of
        None \<Rightarrow> (Inl SigningUnavailable, w)
      | Some sg \<Rightarrow>
          (case lookup2 BRIDGE_CONTRACTS (sourceChain config) (targetChain config) of
             None \<Rightarrow> (Inl (UnsupportedHop (sourceChain config) (targetChain config)), w)
           | Some bridgeAddress \<Rightarrow>
               if bridgeAddress = []
               then (Inl (UnsupportedHop (sourceChain config) (targetChain config)), w)
               else
                 let tx = (if tokenAddress config = ZeroAddress
                           then BridgeETH bridgeAddress (recipient config)
                                  (targetChain config) (amount config)
                           else BridgeToken bridgeAddress (tokenAddress config)
                                  (amount config) (recipient config) (targetChain config));
                     w1 = logged (SendTransactionCall tx) w
                 in (case sendTransaction sg tx of
                       Inl m \<Rightarrow> (Inl (ProviderError m), w1)
                     | Inr txHash \<Rightarrow> (Inr txHash, w1))))"

text \<open>
  The body of the \<^verbatim>\<open>try\<close> block of \<^verbatim>\<open>getBridgeStatus\<close>, and the method with its
  \<^verbatim>\<open>catch\<close>, which turns every error of the body into a status.
\<close>

definition getBridgeStatus_try ::
  "BaseBridge \<Rightarrow> string \<Rightarrow> int \<Rightarrow> world \<Rightarrow> (error + BridgeStatus) \<times> world" where
  "getBridgeStatus_try this txHash srcChain w =
     (let w1 = logged (GetTransactionReceiptCall txHash) w in
      (case getTransactionReceipt (provider this) txHash of
        Inl m \<Rightarrow> (Inl (ProviderError m), w1)
      | Inr None \<Rightarrow>
          (Inr \<lparr>transactionHash = txHash, status = Pending, statusSourceChain = srcChain,
                statusTargetChain = 0, statusAmount = ''0'', timestamp = clock w1\<rparr>, w1)
      | Inr (Some receipt) \<Rightarrow>
          (Inr \<lparr>transactionHash = txHash,
                status = (if receiptStatus receipt = Some 1 then Confirmed else Failed),
                statusSourceChain = srcChain,
                statusTargetChain = 0, statusAmount = ''0'', timestamp = clock w1\<rparr>, w1)))"

definition getBridgeStatus ::
  "BaseBridge \<Rightarrow> string \<Rightarrow> int \<Rightarrow> world \<Rightarrow> (error + BridgeStatus) \<times> world" where
  "getBridgeStatus this txHash srcChain w =
     (case getBridgeStatus_try this txHash srcChain w of
        (Inr st, w1) \<Rightarrow> (Inr st, w1)
      | (Inl err, w1) \<Rightarrow>
          (Inr \<lparr>transactionHash = txHash, status = Failed, statusSourceChain = srcChain,
                statusTargetChain = 0, statusAmount = ''0'', timestamp = clock w1\<rparr>, w1))"

definition getOptimalRoute ::
  "BaseBridge \<Rightarrow> int \<Rightarrow> int \<Rightarrow> string \<Rightarrow> string \<Rightarrow> world \<Rightarrow> (error + Route) \<times> world" where
  "getOptimalRoute this fromChain toChain tokenSymbol amt w =
     (if truthy (lookup2 BRIDGE_CONTRACTS fromChain toChain)
      then
        (case estimateGas this
                \<lparr>sourceChain = fromChain, targetChain = toChain,
                 bridgeContract = the (lookup2 BRIDGE_CONTRACTS fromChain toChain),
                 tokenAddress =
                   (if truthy (lookup2 TOKEN_ADDRESSES tokenSymbol fromChain)
                    then the (lookup2 TOKEN_ADDRESSES tokenSymbol fromChain)
                    else ZeroAddress),
                 amount = amt, recipient = ZeroAddress\<rparr> w of
           (Inl e, w1) \<Rightarrow> (Inl e, w1)
         | (Inr gasEstimate, w1) \<Rightarrow>
             (Inr \<lparr>route = [fromChain, toChain],
                   routeEstimatedTime = estimatedTime gasEstimate,
                   estimatedCost = totalCost gasEstimate,
                   slippage = 0.1\<rparr>, w1))
      else if fromChain \<noteq> ETHEREUM \<and> toChain \<noteq> ETHEREUM
      then (Inr \<lparr>route = [fromChain, ETHEREUM, toChain],
                 routeEstimatedTime = 45,
                 estimatedCost = ''0.01'',
                 slippage = 0.3\<rparr>, w)
      else (Inl (RouteNotFound fromChain toChain), w))"

definition calculateBridgeFees :: "string \<Rightarrow> int \<Rightarrow> int \<Rightarrow> error + Fees" where
  "calculateBridgeFees amt srcChain tgtChain =
     (case BigInt amt of
        Inl e \<Rightarrow> Inl e
      | Inr amountBN \<Rightarrow>
          let bridgeFee = bigint_div (amountBN * 10) 10000;
              gasFee = (if tgtChain = BASE then 1000000000000000 else 5000000000000000);
              totalFee = bridgeFee + gasFee
          in Inr \<lparr>bridgeFee = toString bridgeFee, gasFee = toString gasFee,
                  totalFee = toString totalFee\<rparr>)"

subsection \<open>The bridge-edge graph\<close>

text \<open>
  An edge of the graph is an entry of \<open>BRIDGE_CONTRACTS\<close>. The second definition
  follows the words of the specification, not the code: a path from one chain to another is
  a direct edge or two edges through the Ethereum hub. It is what \<open>getOptimalRoute\<close>
  is compared with.
\<close>

definition bridge_edge :: "int \<Rightarrow> int \<Rightarrow> bool" where
  "bridge_edge a b = truthy (lookup2 BRIDGE_CONTRACTS a b)"

definition spec_path_exists :: "int \<Rightarrow> int \<Rightarrow> bool" where
  "spec_path_exists fromChain toChain \<longleftrightarrow>
     bridge_edge fromChain toChain \<or>
     (bridge_edge fromChain ETHEREUM \<and> bridge_edge ETHEREUM toChain)"

subsection \<open>The mocks of the test suite\<close>

text \<open>
  \<^verbatim>\<open>tests/BaseBridge.test.ts\<close> runs the class against a provider that reports a gas
  price of 20 gwei and, test by test, no receipt, a receipt with status 1, a receipt with
  status 0, or a rejection with \<^verbatim>\<open>Network error\<close>. The concrete inputs below are these.
\<close>

definition mock_provider :: Provider where
  "mock_provider =
     \<lparr>getFeeData = Inr \<lparr>feeGasPrice = Some 20000000000, maxFeePerGas = Some 30000000000,
                          maxPriorityFeePerGas = Some 2000000000\<rparr>,
      getTransactionReceipt = (\<lambda>txHash. Inr None)\<rparr>"

definition confirmed_provider :: Provider where
  "confirmed_provider =
     mock_provider\<lparr>getTransactionReceipt :=
       (\<lambda>txHash. Inr (Some \<lparr>receiptStatus = Some 1, receiptHash = ''0xabcd''\<rparr>))\<rparr>"

definition reverted_provider :: Provider where
  "reverted_provider =
     mock_provider\<lparr>getTransactionReceipt :=
       (\<lambda>txHash. Inr (Some \<lparr>receiptStatus = Some 0, receiptHash = ''0xabcd''\<rparr>))\<rparr>"

definition failing_provider :: Provider where
  "failing_provider =
     mock_provider\<lparr>getTransactionReceipt := (\<lambda>txHash. Inl ''Network error'')\<rparr>"

text \<open>A provider whose gas price makes the total cost of 200000 gas exceed 512 bits.\<close>

definition overflow_fee_data :: FeeData where
  "overflow_fee_data =
     \<lparr>feeGasPrice = Some (2 ^ 494), maxFeePerGas = None, maxPriorityFeePerGas = None\<rparr>"

definition overflow_provider :: Provider where
  "overflow_provider = mock_provider\<lparr>getFeeData := Inr overflow_fee_data\<rparr>"

text \<open>A bridge constructed with a provider and no signer.\<close>

definition bridge_of :: "Provider \<Rightarrow> BaseBridge" where
  "bridge_of p = \<lparr>provider = p, signer = None\<rparr>"

definition fresh_world :: world where
  "fresh_world = \<lparr>calls = [], clock = 1700000000000\<rparr>"

definition later_world :: world where
  "later_world = \<lparr>calls = [GetFeeDataCall], clock = 1700000060000\<rparr>"

definition hop_config :: "int \<Rightarrow> int \<Rightarrow> BridgeConfig" where
  "hop_config s t =
     \<lparr>sourceChain = s, targetChain = t, bridgeContract = [], tokenAddress = ZeroAddress,
      amount = ''1000000000000000000'',
      recipient = ''0x1234567890123456789012345678901234567890''\<rparr>"

section \<open>Properties\<close>

subsection \<open>Decimal strings read back as the number they print\<close>

lemma digit_value_digit_char: "d < 10 \<Longrightarrow> digit_value (digit_char d) = Some d"
  by (auto simp: digit_char_def digit_value_def)

lemma digit_char_in_digits: "digit_char d \<in> set ''0123456789''"
  by (simp add: digit_char_def)

lemma parse_digits_append:
  "parse_digits r acc (xs @ ys) =
     (case parse_digits r acc xs of None \<Rightarrow> None | Some a \<Rightarrow> parse_digits r a ys)"
  by (induction xs arbitrary: acc) (auto split: option.splits)

lemma parse_digits_decimal: "parse_digits 10 0 (decimal n) = Some n"
proof (induction n rule: decimal.induct)
  case (1 n)
  show ?case
  proof (cases "n < 10")
    case True
    then show ?thesis
      by (subst decimal.simps) (simp add: digit_value_digit_char)
  next
    case False
    with 1 have ih: "parse_digits 10 0 (decimal (n div 10)) = Some (n div 10)"
      by simp
    have "n mod 10 < 10" by simp
    then have d: "digit_value (digit_char (n mod 10)) = Some (n mod 10)"
      by (rule digit_value_digit_char)
    from False show ?thesis
      by (subst decimal.simps) (simp add: parse_digits_append ih d)
  qed
qed

lemma decimal_chars: "c \<in> set (decimal n) \<Longrightarrow> c \<in> set ''0123456789''"
proof (induction n rule: decimal.induct)
  case (1 n)
  show ?case
  proof (cases "n < 10")
    case True
    with 1(2) have "c = digit_char n"
      by (subst (asm) decimal.simps) simp
    then show ?thesis using digit_char_in_digits by blast
  next
    case False
    with 1(2) have "c \<in> set (decimal (n div 10)) \<or> c = digit_char (n mod 10)"
      by (subst (asm) decimal.simps) auto
    then show ?thesis
      using 1(1) False digit_char_in_digits by blast
  qed
qed

lemma decimal_nonempty: "decimal n \<noteq> []"
  by (subst decimal.simps) simp

lemma trim_decimal: "trim (decimal n) = decimal n"
proof -
  have h: "hd (decimal n) \<in> set (decimal n)" and l: "last (decimal n) \<in> set (decimal n)"
    using decimal_nonempty by simp_all
  have "\<not> is_white_space (hd (decimal n))"
    using decimal_chars [OF h] by (auto simp: is_white_space_def)
  then have a: "dropWhile is_white_space (decimal n) = decimal n"
    by (simp add: dropWhile_eq_self_iff)
  have "\<not> is_white_space (last (decimal n))"
    using decimal_chars [OF l] by (auto simp: is_white_space_def)
  then have b: "dropWhile is_white_space (rev (decimal n)) = rev (decimal n)"
    by (simp add: dropWhile_eq_self_iff hd_rev)
  show ?thesis by (simp add: trim_def a b)
qed

lemma take2_decimal:
  assumes "c \<notin> set ''0123456789''"
  shows "take 2 (decimal n) \<noteq> [CHR ''0'', c]"
proof
  assume "take 2 (decimal n) = [CHR ''0'', c]"
  then have "c \<in> set (take 2 (decimal n))" by simp
  then have "c \<in> set (decimal n)" by (rule in_set_takeD)
  with decimal_chars assms show False by blast
qed

lemma StringToBigInt_decimal: "StringToBigInt (decimal n) = Some (int n)"
proof -
  have h: "hd (decimal n) \<in> set (decimal n)"
    using decimal_nonempty by simp
  have sign: "hd (decimal n) \<noteq> CHR ''-''" "hd (decimal n) \<noteq> CHR ''+''"
    using decimal_chars [OF h] by auto
  have radix: "take 2 (decimal n) \<noteq> ''0x''" "take 2 (decimal n) \<noteq> ''0X''"
      "take 2 (decimal n) \<noteq> ''0o''" "take 2 (decimal n) \<noteq> ''0O''"
      "take 2 (decimal n) \<noteq> ''0b''" "take 2 (decimal n) \<noteq> ''0B''"
    by (rule take2_decimal, simp)+
  show ?thesis
    unfolding StringToBigInt_def trim_decimal Let_def
    using decimal_nonempty sign radix
    by (simp add: parse_radix_def parse_digits_decimal)
qed

lemma BigInt_toString_nat: "BigInt (toString (int n)) = Inr (int n)"
  by (simp add: BigInt_def toString_def StringToBigInt_decimal)

lemma bigint_div_nonneg: "bigint_div (int a) (int b) = int (a div b)"
  by (cases "a = 0"; cases "b = 0") (simp_all add: bigint_div_def zdiv_int)

lemma toString_gasFee_base: "toString 1000000000000000 = ''1000000000000000''"
  by (simp add: toString_def decimal.simps digit_char_def)

lemma toString_gasFee_default: "toString 5000000000000000 = ''5000000000000000''"
  by (simp add: toString_def decimal.simps digit_char_def)

lemma BigInt_gasLimit: "BigInt ''200000'' = Inr 200000"
  by (simp add: BigInt_def StringToBigInt_def trim_def is_white_space_def parse_radix_def
      digit_value_def)

lemma formatEther_mock: "formatEther 4000000000000000 = Inr ''0.004''"
proof -
  have r: "\<not> fixed_overflow 4000000000000000"
    by (simp add: fixed_overflow_def)
  have w: "decimal (4000000000000000 div 10 ^ 18) = ''0''"
    by (simp add: decimal.simps digit_char_def)
  have d: "decimal (4000000000000000 mod 10 ^ 18) = ''4000000000000000''"
    by (simp add: decimal.simps digit_char_def)
  have p: "replicate (18 - length ''4000000000000000'') (CHR ''0'') = ''00''"
    by (simp add: eval_nat_numeral)
  have s: "strip_trailing_zeros ''004000000000000000'' = ''004''"
    by (simp add: strip_trailing_zeros_def)
  have a: "nat \<bar>4000000000000000\<bar> = 4000000000000000"
    by simp
  show ?thesis
    unfolding formatEther_def Let_def a w d p
    by (simp add: s r)
qed

subsection \<open>The bridge-contract table\<close>

lemma eth_base_entry:
  "lookup2 BRIDGE_CONTRACTS ETHEREUM BASE = Some ''0x3154Cf16ccdb4C6d922629664174b904d80F2C35''"
  by (simp add: lookup2_def BRIDGE_CONTRACTS_def)

lemma bridge_entry_truthy:
  "lookup2 BRIDGE_CONTRACTS s t = Some a \<Longrightarrow> truthy (lookup2 BRIDGE_CONTRACTS s t)"
  by (auto simp: lookup2_def BRIDGE_CONTRACTS_def truthy_def split: if_splits)

lemma unsupported_source_no_entry:
  "\<not> isChainSupported s \<Longrightarrow> lookup2 BRIDGE_CONTRACTS s t = None"
  by (auto simp: isChainSupported_def SUPPORTED_CHAINS_def lookup2_def BRIDGE_CONTRACTS_def)

subsection \<open>What the methods compute\<close>

lemma estimateGas_chains_only:
  "sourceChain c = sourceChain c' \<Longrightarrow> targetChain c = targetChain c' \<Longrightarrow>
     estimateGas this c w = estimateGas this c' w"
  by (simp add: estimateGas_def)

lemma estimateGas_supported:
  assumes "truthy (lookup2 BRIDGE_CONTRACTS (sourceChain config) (targetChain config))"
  shows "estimateGas this config w =
     (case getFeeData (provider this) of
        Inl m \<Rightarrow> (Inl (ProviderError m), logged GetFeeDataCall w)
      | Inr feeData \<Rightarrow>
          (case formatEther (200000 * effective_gas_price feeData) of
             Inl e \<Rightarrow> (Inl e, logged GetFeeDataCall w)
           | Inr cost \<Rightarrow>
               (Inr \<lparr>gasLimit = ''200000'',
                     gasPrice = (case feeGasPrice feeData of
                                   None \<Rightarrow> ''20000000000'' | Some p \<Rightarrow> toString p),
                     totalCost = cost,
                     estimatedTime = (if targetChain config = BASE then 10
                                      else if targetChain config = ETHEREUM then 20 else 15)\<rparr>,
                logged GetFeeDataCall w)))"
proof (cases "getFeeData (provider this)")
  case (Inl m)
  with assms show ?thesis
    by (simp add: estimateGas_def Let_def)
next
  case (Inr feeData)
  with assms show ?thesis
    by (cases "formatEther (200000 * effective_gas_price feeData)")
       (simp_all add: estimateGas_def Let_def BigInt_gasLimit)
qed

lemma formatEther_in_range:
  "\<not> fixed_overflow v \<Longrightarrow> \<exists>cost. formatEther v = Inr cost"
  by (simp add: formatEther_def Let_def)

lemma formatEther_overflow:
  "fixed_overflow v \<Longrightarrow> formatEther v = Inl (RangeError ''overflow'')"
  by (simp add: formatEther_def)

lemma estimateGas_mock:
  "estimateGas (bridge_of mock_provider) (hop_config ETHEREUM BASE) fresh_world =
     (Inr \<lparr>gasLimit = ''200000'', gasPrice = ''20000000000'', totalCost = ''0.004'',
           estimatedTime = 10\<rparr>,
      \<lparr>calls = [GetFeeDataCall], clock = 1700000000000\<rparr>)"
proof -
  have e: "truthy (lookup2 BRIDGE_CONTRACTS (sourceChain (hop_config ETHEREUM BASE))
             (targetChain (hop_config ETHEREUM BASE)))"
    by (simp add: hop_config_def eth_base_entry truthy_def)
  have t: "toString 20000000000 = ''20000000000''"
    by (simp add: toString_def decimal.simps digit_char_def)
  show ?thesis
    unfolding estimateGas_supported [OF e]
    by (simp add: bridge_of_def mock_provider_def effective_gas_price_def formatEther_mock t
        hop_config_def logged_def fresh_world_def)
qed

lemma getBridgeStatus_eq:
  "getBridgeStatus this txHash srcChain w =
     (Inr \<lparr>transactionHash = txHash,
           status = (case getTransactionReceipt (provider this) txHash of
                       Inl m \<Rightarrow> Failed
                     | Inr None \<Rightarrow> Pending
                     | Inr (Some receipt) \<Rightarrow>
                         if receiptStatus receipt = Some 1 then Confirmed else Failed),
           statusSourceChain = srcChain, statusTargetChain = 0, statusAmount = ''0'',
           timestamp = clock w\<rparr>,
      logged (GetTransactionReceiptCall txHash) w)"
  by (simp add: getBridgeStatus_def getBridgeStatus_try_def logged_def Let_def
      split: sum.splits option.splits)

lemma calculateBridgeFees_parsed:
  assumes "BigInt amt = Inr (int n)"
  shows "calculateBridgeFees amt s t =
     Inr \<lparr>bridgeFee = toString (int (n * 10 div 10000)),
          gasFee = (if t = BASE then ''1000000000000000'' else ''5000000000000000''),
          totalFee = toString (int (n * 10 div 10000)
                       + (if t = BASE then 1000000000000000 else 5000000000000000))\<rparr>"
proof -
  have "bigint_div (int n * 10) 10000 = int (n * 10 div 10000)"
    using bigint_div_nonneg [of "n * 10" 10000] by simp
  then show ?thesis
    by (simp add: calculateBridgeFees_def assms Let_def
        toString_gasFee_base toString_gasFee_default)
qed

section \<open>The claims\<close>

subsection \<open>Routes\<close>

text \<open>
  Claim C1, as the code has it. The claim reads: whenever no path exists in the bridge-edge
  graph, \<open>getOptimalRoute\<close> fails with RouteNotFound. The code does not search the
  graph: without a direct entry it fails exactly when one of the two chains is Ethereum
  (then no path exists either), and for two supported chains other than Ethereum it
  returns the route through Ethereum whether or not the table holds the two edges.
\<close>

theorem getOptimalRoute_RouteNotFound:
  assumes "lookup2 BRIDGE_CONTRACTS fromChain toChain = None"
  shows "(fromChain = ETHEREUM \<or> toChain = ETHEREUM \<longrightarrow>
            \<not> spec_path_exists fromChain toChain \<and>
            getOptimalRoute this fromChain toChain tokenSymbol amt w =
              (Inl (RouteNotFound fromChain toChain), w)) \<and>
         (fromChain \<noteq> ETHEREUM \<and> toChain \<noteq> ETHEREUM \<and>
          isChainSupported fromChain \<and> isChainSupported toChain \<longrightarrow>
            getOptimalRoute this fromChain toChain tokenSymbol amt w =
              (Inr \<lparr>route = [fromChain, ETHEREUM, toChain], routeEstimatedTime = 45,
                    estimatedCost = ''0.01'', slippage = 0.3\<rparr>, w))"
proof -
  have loop: "\<not> truthy (lookup2 BRIDGE_CONTRACTS ETHEREUM ETHEREUM)"
    by (simp add: truthy_def lookup2_def BRIDGE_CONTRACTS_def)
  have no_direct: "\<not> truthy (lookup2 BRIDGE_CONTRACTS fromChain toChain)"
    using assms by (simp add: truthy_def)
  have "\<not> spec_path_exists fromChain toChain" if "fromChain = ETHEREUM \<or> toChain = ETHEREUM"
    using that loop no_direct by (auto simp: spec_path_exists_def bridge_edge_def)
  moreover have "getOptimalRoute this fromChain toChain tokenSymbol amt w =
      (Inl (RouteNotFound fromChain toChain), w)"
    if "fromChain = ETHEREUM \<or> toChain = ETHEREUM"
    using that no_direct by (auto simp: getOptimalRoute_def)
  moreover have "getOptimalRoute this fromChain toChain tokenSymbol amt w =
      (Inr \<lparr>route = [fromChain, ETHEREUM, toChain], routeEstimatedTime = 45,
            estimatedCost = ''0.01'', slippage = 0.3\<rparr>, w)"
    if "fromChain \<noteq> ETHEREUM" and "toChain \<noteq> ETHEREUM"
    using that no_direct by (simp add: getOptimalRoute_def)
  ultimately show ?thesis by blast
qed

theorem getOptimalRoute_RouteNotFound_witness:
  "\<not> spec_path_exists ARBITRUM ETHEREUM \<and>
   getOptimalRoute (bridge_of mock_provider) ARBITRUM ETHEREUM ''USDC'' ''1000000'' fresh_world =
     (Inl (RouteNotFound ARBITRUM ETHEREUM), fresh_world) \<and>
   isChainSupported BASE \<and> isChainSupported ARBITRUM \<and> \<not> bridge_edge ETHEREUM ARBITRUM \<and>
   getOptimalRoute (bridge_of mock_provider) BASE ARBITRUM ''USDC'' ''1000000'' fresh_world =
     (Inr \<lparr>route = [BASE, ETHEREUM, ARBITRUM], routeEstimatedTime = 45,
           estimatedCost = ''0.01'', slippage = 0.3\<rparr>, fresh_world)"
proof -
  have n: "lookup2 BRIDGE_CONTRACTS ARBITRUM ETHEREUM = None"
    and n': "lookup2 BRIDGE_CONTRACTS BASE ARBITRUM = None"
    by (simp_all add: lookup2_def BRIDGE_CONTRACTS_def)
  have sup: "isChainSupported BASE" "isChainSupported ARBITRUM"
    by (simp_all add: isChainSupported_def SUPPORTED_CHAINS_def)
  have edge: "\<not> bridge_edge ETHEREUM ARBITRUM"
    by (simp add: bridge_edge_def truthy_def lookup2_def BRIDGE_CONTRACTS_def)
  show ?thesis
    using getOptimalRoute_RouteNotFound [OF n, where this = "bridge_of mock_provider"
            and tokenSymbol = "''USDC''" and amt = "''1000000''" and w = fresh_world]
          getOptimalRoute_RouteNotFound [OF n', where this = "bridge_of mock_provider"
            and tokenSymbol = "''USDC''" and amt = "''1000000''" and w = fresh_world]
          sup edge
    by simp
qed

text \<open>
  The claim as stated fails from Optimism to Arbitrum, the pair of the test suite's
  multi-hop test: the table has no edge out of Optimism and none into Arbitrum, so no
  path exists, and the route through Ethereum is returned all the same.
\<close>

theorem getOptimalRoute_no_path_counterexample:
  "\<not> spec_path_exists OPTIMISM ARBITRUM \<and>
   fst (getOptimalRoute (bridge_of mock_provider) OPTIMISM ARBITRUM ''WETH''
          ''1000000000000000000'' fresh_world) =
     Inr \<lparr>route = [OPTIMISM, ETHEREUM, ARBITRUM], routeEstimatedTime = 45,
          estimatedCost = ''0.01'', slippage = 0.3\<rparr>"
  by (simp add: spec_path_exists_def bridge_edge_def truthy_def lookup2_def
      BRIDGE_CONTRACTS_def getOptimalRoute_def)

text \<open>
  Claim C7: for a pair with a direct entry in the bridge-contract table,
  \<open>getOptimalRoute\<close> answers with the route of the two chains and slippage 0.1, and
  takes its time and cost from the gas estimate of that single hop (the estimate of any
  configuration with this source and target). When the estimate fails, because the
  provider rejects the fee query, the route fails with the same error.
\<close>

theorem getOptimalRoute_direct:
  assumes "lookup2 BRIDGE_CONTRACTS fromChain toChain = Some a"
    and "sourceChain config = fromChain" and "targetChain config = toChain"
  shows "case estimateGas this config w of
           (Inl e, w1) \<Rightarrow> getOptimalRoute this fromChain toChain tokenSymbol amt w = (Inl e, w1)
         | (Inr g, w1) \<Rightarrow>
             getOptimalRoute this fromChain toChain tokenSymbol amt w =
               (Inr \<lparr>route = [fromChain, toChain], routeEstimatedTime = estimatedTime g,
                     estimatedCost = totalCost g, slippage = 0.1\<rparr>, w1)"
proof -
  let ?c = "\<lparr>sourceChain = fromChain, targetChain = toChain,
             bridgeContract = the (lookup2 BRIDGE_CONTRACTS fromChain toChain),
             tokenAddress =
               (if truthy (lookup2 TOKEN_ADDRESSES tokenSymbol fromChain)
                then the (lookup2 TOKEN_ADDRESSES tokenSymbol fromChain)
                else ZeroAddress),
             amount = amt, recipient = ZeroAddress\<rparr>"
  have same: "estimateGas this ?c w = estimateGas this config w"
    by (rule estimateGas_chains_only) (simp_all add: assms)
  have direct: "truthy (lookup2 BRIDGE_CONTRACTS fromChain toChain)"
    using assms(1) by (rule bridge_entry_truthy)
  show ?thesis
    unfolding getOptimalRoute_def same using direct
    by (simp split: prod.splits sum.splits)
qed

theorem getOptimalRoute_direct_witness:
  "getOptimalRoute (bridge_of mock_provider) ETHEREUM BASE ''USDC'' ''1000000'' fresh_world =
     (Inr \<lparr>route = [ETHEREUM, BASE], routeEstimatedTime = 10, estimatedCost = ''0.004'',
           slippage = 0.1\<rparr>,
      \<lparr>calls = [GetFeeDataCall], clock = 1700000000000\<rparr>)"
proof -
  have c: "sourceChain (hop_config ETHEREUM BASE) = ETHEREUM"
      "targetChain (hop_config ETHEREUM BASE) = BASE"
    by (simp_all add: hop_config_def)
  show ?thesis
    using getOptimalRoute_direct [OF eth_base_entry c, where this = "bridge_of mock_provider"
            and w = fresh_world and tokenSymbol = "''USDC''" and amt = "''1000000''"]
    by (simp add: estimateGas_mock)
qed

text \<open>
  Claim C9: for a pair without a direct entry where neither chain is Ethereum,
  \<open>getOptimalRoute\<close> returns the route through Ethereum with time 45, cost 0.01 and
  slippage 0.3. Nothing else is asked: the chains need not be supported, and the table
  need not hold the two edges of the route. No call goes to the provider.
\<close>

theorem getOptimalRoute_via_ethereum:
  assumes "lookup2 BRIDGE_CONTRACTS fromChain toChain = None"
    and "fromChain \<noteq> ETHEREUM" and "toChain \<noteq> ETHEREUM"
  shows "getOptimalRoute this fromChain toChain tokenSymbol amt w =
           (Inr \<lparr>route = [fromChain, ETHEREUM, toChain], routeEstimatedTime = 45,
                 estimatedCost = ''0.01'', slippage = 0.3\<rparr>, w)"
  using assms by (simp add: getOptimalRoute_def truthy_def)

theorem getOptimalRoute_via_ethereum_witness:
  "\<not> isChainSupported 999 \<and> \<not> isChainSupported 888 \<and>
   \<not> bridge_edge 999 ETHEREUM \<and> \<not> bridge_edge ETHEREUM 888 \<and>
   getOptimalRoute (bridge_of mock_provider) 999 888 ''USDC'' ''1000000'' fresh_world =
     (Inr \<lparr>route = [999, ETHEREUM, 888], routeEstimatedTime = 45, estimatedCost = ''0.01'',
           slippage = 0.3\<rparr>, fresh_world)"
proof -
  have n: "lookup2 BRIDGE_CONTRACTS 999 888 = None"
    by (simp add: lookup2_def BRIDGE_CONTRACTS_def)
  have "(999::int) \<noteq> ETHEREUM" and "(888::int) \<noteq> ETHEREUM"
    by simp_all
  from getOptimalRoute_via_ethereum [OF n this, where this = "bridge_of mock_provider"
         and tokenSymbol = "''USDC''" and amt = "''1000000''" and w = fresh_world]
  show ?thesis
    by (simp add: isChainSupported_def SUPPORTED_CHAINS_def bridge_edge_def truthy_def
        lookup2_def BRIDGE_CONTRACTS_def)
qed

subsection \<open>Gas estimates\<close>

text \<open>
  Claim C5: for a configuration whose pair has an entry in the bridge-contract table,
  the estimate that \<open>estimateGas\<close> returns has gas limit 200000 and the static time of
  the target chain: 10 for Base, 20 for Ethereum, 15 otherwise. It returns such an
  estimate whenever the provider answers the fee query and the total cost, 200000 times
  the effective gas price, fits the 512 bits of \<^verbatim>\<open>formatEther\<close>. The two other outcomes
  are errors: the provider's rejection passed on, and the RangeError of a cost that
  does not fit.
\<close>

theorem estimateGas_direct_pair:
  assumes "lookup2 BRIDGE_CONTRACTS (sourceChain config) (targetChain config) = Some a"
  shows "case getFeeData (provider this) of
           Inl m \<Rightarrow> fst (estimateGas this config w) = Inl (ProviderError m)
         | Inr feeData \<Rightarrow>
             if fixed_overflow (200000 * effective_gas_price feeData)
             then fst (estimateGas this config w) = Inl (RangeError ''overflow'')
             else (\<exists>g. fst (estimateGas this config w) = Inr g \<and>
                       gasLimit g = ''200000'' \<and>
                       estimatedTime g =
                         (if targetChain config = BASE then 10
                          else if targetChain config = ETHEREUM then 20 else 15))"
proof (cases "getFeeData (provider this)")
  case (Inl m)
  then show ?thesis
    by (simp add: estimateGas_supported [OF bridge_entry_truthy [OF assms]])
next
  case (Inr feeData)
  show ?thesis
  proof (cases "fixed_overflow (200000 * effective_gas_price feeData)")
    case True
    with Inr show ?thesis
      by (simp add: estimateGas_supported [OF bridge_entry_truthy [OF assms]]
          formatEther_overflow)
  next
    case False
    then obtain cost where "formatEther (200000 * effective_gas_price feeData) = Inr cost"
      using formatEther_in_range by blast
    with Inr False show ?thesis
      by (simp add: estimateGas_supported [OF bridge_entry_truthy [OF assms]])
  qed
qed

theorem estimateGas_direct_pair_witness:
  "fst (estimateGas (bridge_of mock_provider) (hop_config ETHEREUM BASE) fresh_world) =
     Inr \<lparr>gasLimit = ''200000'', gasPrice = ''20000000000'', totalCost = ''0.004'',
          estimatedTime = 10\<rparr> \<and>
   fst (estimateGas (bridge_of overflow_provider) (hop_config ETHEREUM BASE) fresh_world) =
     Inl (RangeError ''overflow'')"
proof -
  have e: "lookup2 BRIDGE_CONTRACTS (sourceChain (hop_config ETHEREUM BASE))
             (targetChain (hop_config ETHEREUM BASE)) =
           Some ''0x3154Cf16ccdb4C6d922629664174b904d80F2C35''"
    by (simp add: hop_config_def eth_base_entry)
  have f: "getFeeData (provider (bridge_of overflow_provider)) = Inr overflow_fee_data"
    by (simp add: bridge_of_def overflow_provider_def)
  have big: "fixed_overflow (200000 * effective_gas_price overflow_fee_data)"
    by (simp add: fixed_overflow_def effective_gas_price_def overflow_fee_data_def)
  have "fst (estimateGas (bridge_of overflow_provider) (hop_config ETHEREUM BASE) fresh_world) =
          Inl (RangeError ''overflow'')"
    using estimateGas_direct_pair [OF e, of "bridge_of overflow_provider" fresh_world]
    by (simp add: f big)
  then show ?thesis
    by (simp add: estimateGas_mock)
qed

text \<open>
  Claim C6: for a configuration whose pair has no entry in the bridge-contract table,
  as for every source chain that is not supported, \<open>estimateGas\<close> fails with
  UnsupportedHop and leaves the world as it was: the fee query is not made.
\<close>

theorem estimateGas_unsupported_hop:
  assumes "lookup2 BRIDGE_CONTRACTS (sourceChain config) (targetChain config) = None
           \<or> \<not> isChainSupported (sourceChain config)"
  shows "estimateGas this config w =
           (Inl (UnsupportedHop (sourceChain config) (targetChain config)), w)"
proof -
  from assms have "lookup2 BRIDGE_CONTRACTS (sourceChain config) (targetChain config) = None"
    using unsupported_source_no_entry by blast
  then show ?thesis
    by (simp add: estimateGas_def truthy_def)
qed

theorem estimateGas_unsupported_hop_witness:
  "\<not> isChainSupported 999 \<and>
   estimateGas (bridge_of mock_provider) (hop_config 999 BASE) fresh_world =
     (Inl (UnsupportedHop 999 BASE), fresh_world)"
proof -
  have u: "\<not> isChainSupported 999"
    by (simp add: isChainSupported_def SUPPORTED_CHAINS_def)
  then have "lookup2 BRIDGE_CONTRACTS (sourceChain (hop_config 999 BASE))
               (targetChain (hop_config 999 BASE)) = None
             \<or> \<not> isChainSupported (sourceChain (hop_config 999 BASE))"
    by (simp add: hop_config_def)
  from estimateGas_unsupported_hop [OF this, of "bridge_of mock_provider" fresh_world] u
  show ?thesis by (simp add: hop_config_def)
qed

subsection \<open>Submitting a hop\<close>

text \<open>
  Claim C8: without a signer \<open>initiateBridge\<close> fails with SigningUnavailable, whatever
  the configuration (also for a pair without a bridge contract, whose check comes
  second), and the world is as it was: no transaction was handed to anyone.
\<close>

theorem initiateBridge_without_signer:
  assumes "signer this = None"
  shows "initiateBridge this config w = (Inl SigningUnavailable, w)"
  using assms by (simp add: initiateBridge_def)

theorem initiateBridge_without_signer_witness:
  "initiateBridge (bridge_of mock_provider) (hop_config ETHEREUM BASE) fresh_world =
     (Inl SigningUnavailable, fresh_world) \<and>
   initiateBridge (bridge_of mock_provider) (hop_config 999 BASE) fresh_world =
     (Inl SigningUnavailable, fresh_world)"
proof -
  have s: "signer (bridge_of mock_provider) = None"
    by (simp add: bridge_of_def)
  show ?thesis
    using initiateBridge_without_signer [OF s, of "hop_config ETHEREUM BASE" fresh_world]
          initiateBridge_without_signer [OF s, of "hop_config 999 BASE" fresh_world]
    by simp
qed

subsection \<open>Bridge status\<close>

text \<open>
  Claim C3: \<open>getBridgeStatus\<close> maps the provider's answer to a state: no receipt is
  Pending, a receipt with status 1 is Confirmed, a receipt with any other status is
  Failed. The hash and the source chain of the result are the arguments. A second call,
  on any bridge whose provider gives the same answer for the hash and in any world
  (a later clock, a longer log), returns the same state, hash and source chain.
\<close>

theorem getBridgeStatus_receipt_mapping:
  "(getTransactionReceipt (provider this) txHash = Inr None \<longrightarrow>
      (\<exists>st. fst (getBridgeStatus this txHash srcChain w) = Inr st \<and> status st = Pending)) \<and>
   (\<forall>r. getTransactionReceipt (provider this) txHash = Inr (Some r) \<longrightarrow>
      (\<exists>st. fst (getBridgeStatus this txHash srcChain w) = Inr st \<and>
            status st = (if receiptStatus r = Some 1 then Confirmed else Failed))) \<and>
   (\<exists>st. fst (getBridgeStatus this txHash srcChain w) = Inr st \<and>
         transactionHash st = txHash \<and> statusSourceChain st = srcChain) \<and>
   (\<forall>that w'. getTransactionReceipt (provider that) txHash =
                 getTransactionReceipt (provider this) txHash \<longrightarrow>
      (\<exists>st st'. fst (getBridgeStatus this txHash srcChain w) = Inr st \<and>
                fst (getBridgeStatus that txHash srcChain w') = Inr st' \<and>
                status st' = status st \<and> transactionHash st' = transactionHash st \<and>
                statusSourceChain st' = statusSourceChain st))"
  by (simp add: getBridgeStatus_eq)

theorem getBridgeStatus_receipt_mapping_witness:
  "fst (getBridgeStatus (bridge_of mock_provider) ''0xabcd'' ETHEREUM fresh_world) =
     Inr \<lparr>transactionHash = ''0xabcd'', status = Pending, statusSourceChain = ETHEREUM,
          statusTargetChain = 0, statusAmount = ''0'', timestamp = 1700000000000\<rparr> \<and>
   fst (getBridgeStatus (bridge_of mock_provider) ''0xabcd'' ETHEREUM later_world) =
     Inr \<lparr>transactionHash = ''0xabcd'', status = Pending, statusSourceChain = ETHEREUM,
          statusTargetChain = 0, statusAmount = ''0'', timestamp = 1700000060000\<rparr> \<and>
   fst (getBridgeStatus (bridge_of confirmed_provider) ''0xabcd'' BASE fresh_world) =
     Inr \<lparr>transactionHash = ''0xabcd'', status = Confirmed, statusSourceChain = BASE,
          statusTargetChain = 0, statusAmount = ''0'', timestamp = 1700000000000\<rparr> \<and>
   fst (getBridgeStatus (bridge_of reverted_provider) ''0xabcd'' BASE fresh_world) =
     Inr \<lparr>transactionHash = ''0xabcd'', status = Failed, statusSourceChain = BASE,
          statusTargetChain = 0, statusAmount = ''0'', timestamp = 1700000000000\<rparr>"
  using getBridgeStatus_receipt_mapping
          [of "bridge_of mock_provider" "''0xabcd''" ETHEREUM fresh_world]
  by (simp add: getBridgeStatus_def getBridgeStatus_try_def logged_def bridge_of_def
      mock_provider_def confirmed_provider_def reverted_provider_def fresh_world_def
      later_world_def)

text \<open>
  Claim C4, as the code has it. The claim reads: on a query error the tracker retries a
  bounded number of times before it reports Failed, and the caller can tell that report
  from a failure receipt. The code has no retry: when the receipt query is rejected,
  \<open>getBridgeStatus\<close> has made that one query and reports Failed at once, with target
  chain 0 and amount 0; and a bridge whose provider returns a receipt that is not a
  success yields the very same result in the same world, so nothing in the result tells
  the two apart.
\<close>

theorem getBridgeStatus_provider_error_no_retry:
  assumes "getTransactionReceipt (provider this) txHash = Inl m"
    and "getTransactionReceipt (provider that) txHash = Inr (Some receipt)"
    and "receiptStatus receipt \<noteq> Some 1"
  shows "getBridgeStatus this txHash srcChain w =
           (Inr \<lparr>transactionHash = txHash, status = Failed, statusSourceChain = srcChain,
                 statusTargetChain = 0, statusAmount = ''0'', timestamp = clock w\<rparr>,
            logged (GetTransactionReceiptCall txHash) w) \<and>
         getBridgeStatus that txHash srcChain w = getBridgeStatus this txHash srcChain w"
  using assms by (simp add: getBridgeStatus_eq)

theorem getBridgeStatus_provider_error_no_retry_witness:
  "getBridgeStatus (bridge_of failing_provider) ''0xabcd'' BASE fresh_world =
     (Inr \<lparr>transactionHash = ''0xabcd'', status = Failed, statusSourceChain = BASE,
           statusTargetChain = 0, statusAmount = ''0'', timestamp = 1700000000000\<rparr>,
      \<lparr>calls = [GetTransactionReceiptCall ''0xabcd''], clock = 1700000000000\<rparr>) \<and>
   getBridgeStatus (bridge_of reverted_provider) ''0xabcd'' BASE fresh_world =
     getBridgeStatus (bridge_of failing_provider) ''0xabcd'' BASE fresh_world"
proof -
  have a: "getTransactionReceipt (provider (bridge_of failing_provider)) ''0xabcd'' =
             Inl ''Network error''"
    by (simp add: bridge_of_def failing_provider_def)
  have b: "getTransactionReceipt (provider (bridge_of reverted_provider)) ''0xabcd'' =
             Inr (Some \<lparr>receiptStatus = Some 0, receiptHash = ''0xabcd''\<rparr>)"
    by (simp add: bridge_of_def reverted_provider_def)
  have c: "receiptStatus \<lparr>receiptStatus = Some 0, receiptHash = ''0xabcd''\<rparr> \<noteq> Some 1"
    by simp
  show ?thesis
    using getBridgeStatus_provider_error_no_retry [OF a b c, of BASE fresh_world]
    by (simp add: logged_def fresh_world_def)
qed

text \<open>
  The claim as stated fails on the mocks of the test suite: the result for the provider
  that rejects with a network error is equal to the result for the provider that returns
  a failure receipt, and the log of the first holds the single receipt query.
\<close>

theorem getBridgeStatus_provider_error_counterexample:
  "getBridgeStatus (bridge_of failing_provider) ''0xabcd'' BASE fresh_world =
     getBridgeStatus (bridge_of reverted_provider) ''0xabcd'' BASE fresh_world \<and>
   calls (snd (getBridgeStatus (bridge_of failing_provider) ''0xabcd'' BASE fresh_world)) =
     [GetTransactionReceiptCall ''0xabcd'']"
  by (simp add: getBridgeStatus_def getBridgeStatus_try_def logged_def bridge_of_def
      mock_provider_def failing_provider_def reverted_provider_def fresh_world_def)

text \<open>
  Claim C10: \<open>getBridgeStatus\<close> always resolves, never rejects: for every provider, hash,
  chain and world the outcome is a status record whose state is one of Pending, Confirmed
  and Failed, with the arguments as hash and source chain, target chain 0, amount 0 and
  the clock as timestamp; and when the provider rejects the query the state is Failed.
\<close>

theorem getBridgeStatus_total:
  "\<exists>st. fst (getBridgeStatus this txHash srcChain w) = Inr st \<and>
        status st \<in> {Pending, Confirmed, Failed} \<and>
        transactionHash st = txHash \<and> statusSourceChain st = srcChain \<and>
        statusTargetChain st = 0 \<and> statusAmount st = ''0'' \<and> timestamp st = clock w \<and>
        (\<forall>m. getTransactionReceipt (provider this) txHash = Inl m \<longrightarrow> status st = Failed)"
  by (cases "getTransactionReceipt (provider this) txHash")
     (auto simp: getBridgeStatus_eq split: option.splits)

theorem getBridgeStatus_total_witness:
  "fst (getBridgeStatus (bridge_of failing_provider) ''0xabcd'' BASE fresh_world) =
     Inr \<lparr>transactionHash = ''0xabcd'', status = Failed, statusSourceChain = BASE,
          statusTargetChain = 0, statusAmount = ''0'', timestamp = 1700000000000\<rparr>"
  using getBridgeStatus_total [of "bridge_of failing_provider" "''0xabcd''" BASE fresh_world]
  by (simp add: getBridgeStatus_def getBridgeStatus_try_def logged_def bridge_of_def
      mock_provider_def failing_provider_def fresh_world_def)

subsection \<open>Fees\<close>

text \<open>
  Claim C2: for every natural number \<open>n\<close>, given as its decimal string,
  \<open>calculateBridgeFees\<close> returns the bridge fee \<open>n * 10 div 10000\<close> (rounded down), the
  gas fee 1000000000000000 for the target Base and 5000000000000000 otherwise, and their
  sum as the total, each printed in decimal. The numbers are unbounded integers, so
  nothing is lost at any size. The function takes no world and returns none: it calls
  neither the provider nor the signer.
\<close>

theorem calculateBridgeFees_exact:
  "calculateBridgeFees (toString (int n)) s t =
     Inr \<lparr>bridgeFee = toString (int (n * 10 div 10000)),
          gasFee = (if t = BASE then ''1000000000000000'' else ''5000000000000000''),
          totalFee = toString (int (n * 10 div 10000)
                       + (if t = BASE then 1000000000000000 else 5000000000000000))\<rparr>"
  using BigInt_toString_nat by (rule calculateBridgeFees_parsed)

theorem calculateBridgeFees_exact_witness:
  "calculateBridgeFees ''340282366920938463463374607431768211456'' ETHEREUM BASE =
     Inr \<lparr>bridgeFee = ''340282366920938463463374607431768211'',
          gasFee = ''1000000000000000'',
          totalFee = ''340282366920938463464374607431768211''\<rparr> \<and>
   calculateBridgeFees ''0'' BASE ETHEREUM =
     Inr \<lparr>bridgeFee = ''0'', gasFee = ''5000000000000000'', totalFee = ''5000000000000000''\<rparr>"
  using calculateBridgeFees_exact [of 340282366920938463463374607431768211456 ETHEREUM BASE]
        calculateBridgeFees_exact [of 0 BASE ETHEREUM]
  by (simp add: toString_def decimal.simps digit_char_def)

end
